theory Spec2Isabelle
  imports Complex_Main "HOL-Library.Multiset"
begin

section \<open>Strings and documents\<close>

text \<open>
  A JavaScript string is a sequence of UTF-16 code units; \<open>length\<close> counts code units.
  Numbers are modelled as exact reals (the rounding of IEEE doubles and of
  \<^verbatim>\<open>Float32Array\<close> is not part of the model); counts and years are integers.
\<close>

type_synonym ustring = "nat list"

definition str :: "string \<Rightarrow> ustring" where
  "str s = map of_char s"

text \<open>Truthiness of an optional number and of an optional string (\<^verbatim>\<open>undefined\<close>,
  \<^verbatim>\<open>0\<close> and the empty string are falsy).\<close>

definition truthy_num :: "int option \<Rightarrow> bool" where
  "truthy_num v = (case v of None \<Rightarrow> False | Some n \<Rightarrow> n \<noteq> 0)"

definition truthy_str :: "ustring option \<Rightarrow> bool" where
  "truthy_str v = (case v of None \<Rightarrow> False | Some s \<Rightarrow> s \<noteq> [])"

section \<open>Metadata filter (src/rag/hybrid.ts, applyFilter)\<close>

record metadata =
  m_year :: "int option"
  m_month :: "int option"
  m_category_lvl1 :: "ustring option"
  m_merchant :: "ustring option"
  m_currency :: "ustring option"

record hybrid_filter =
  f_year :: "int option"
  f_month :: "int option"
  f_category :: "ustring option"
  f_merchant :: "ustring option"
  f_currency :: "ustring option"

record doc =
  d_id :: ustring
  d_text :: ustring
  d_metadata :: "metadata option"

text \<open>The object \<^verbatim>\<open>{}\<close> that stands in for a missing \<^verbatim>\<open>metadata\<close>.\<close>

definition no_metadata :: metadata where
  "no_metadata = \<lparr>m_year = None, m_month = None, m_category_lvl1 = None,
     m_merchant = None, m_currency = None\<rparr>"

text \<open>The callback of \<^verbatim>\<open>docs.filter\<close>, line by line.\<close>

definition passes :: "hybrid_filter \<Rightarrow> doc \<Rightarrow> bool" where
  "passes f d =
     (let m = (case d_metadata d of None \<Rightarrow> no_metadata | Some md \<Rightarrow> md) in
      if truthy_num (f_year f) \<and> m_year m \<noteq> f_year f then False
      else if truthy_num (f_month f) \<and> m_month m \<noteq> f_month f then False
      else if truthy_str (f_category f) \<and> truthy_str (m_category_lvl1 m)
              \<and> m_category_lvl1 m \<noteq> f_category f then False
      else if truthy_str (f_merchant f) \<and> truthy_str (m_merchant m)
              \<and> m_merchant m \<noteq> f_merchant f then False
      else if truthy_str (f_currency f) \<and> truthy_str (m_currency m)
              \<and> m_currency m \<noteq> f_currency f then False
      else True)"

definition applyFilter :: "doc list \<Rightarrow> hybrid_filter option \<Rightarrow> doc list" where
  "applyFilter docs fo = (case fo of None \<Rightarrow> docs | Some f \<Rightarrow> filter (passes f) docs)"

text \<open>
  The admission rule in the words of the specification, for comparison: a field's
  constraint is met when the constraint is absent, or the document's field is absent,
  or the two values are equal.
\<close>

definition spec_field_ok :: "'a option \<Rightarrow> 'a option \<Rightarrow> bool" where
  "spec_field_ok c v = (c = None \<or> v = None \<or> c = v)"

definition spec_admits :: "hybrid_filter \<Rightarrow> doc \<Rightarrow> bool" where
  "spec_admits f d =
     (let m = (case d_metadata d of None \<Rightarrow> no_metadata | Some md \<Rightarrow> md) in
      spec_field_ok (f_year f) (m_year m) \<and> spec_field_ok (f_month f) (m_month m)
      \<and> spec_field_ok (f_category f) (m_category_lvl1 m)
      \<and> spec_field_ok (f_merchant f) (m_merchant m)
      \<and> spec_field_ok (f_currency f) (m_currency m))"

text \<open>The scenario of the specification: three documents and the filter \<^verbatim>\<open>{month: 1}\<close>.\<close>

definition scenario_doc1 :: doc where
  "scenario_doc1 = \<lparr>d_id = str ''d1'', d_text = str ''one'',
     d_metadata = Some (no_metadata\<lparr>m_year := Some 2024, m_month := Some 1\<rparr>)\<rparr>"

definition scenario_doc2 :: doc where
  "scenario_doc2 = \<lparr>d_id = str ''d2'', d_text = str ''two'',
     d_metadata = Some (no_metadata\<lparr>m_year := Some 2024, m_month := Some 2\<rparr>)\<rparr>"

definition scenario_doc3 :: doc where
  "scenario_doc3 = \<lparr>d_id = str ''d3'', d_text = str ''three'', d_metadata = None\<rparr>"

definition scenario_filter :: hybrid_filter where
  "scenario_filter = \<lparr>f_year = None, f_month = Some 1, f_category = None,
     f_merchant = None, f_currency = None\<rparr>"

section \<open>Vector store (src/rag/vectorDb.ts)\<close>

text \<open>A chunk of an index file; \<open>c_metadata\<close> is the extra field that the chunks of the
  hybrid retriever's indexes carry.\<close>

record vector_chunk =
  c_id :: ustring
  c_text :: ustring
  c_embedding :: "real list"
  c_page :: "nat option"
  c_offset :: "nat option"
  c_tokens :: "nat option"
  c_metadata :: "metadata option"

record vector_index =
  x_model :: ustring
  x_dims :: nat
  x_createdAt :: ustring
  x_chunks :: "vector_chunk list"

record search_options =
  o_topK :: "nat option"
  o_minScore :: "real option"
  o_mmrLambda :: "real option"

record search_result_item =
  r_id :: ustring
  r_text :: ustring
  r_score :: real
  r_page :: "nat option"
  r_offset :: "nat option"
  r_tokens :: "nat option"

text \<open>The private fields of class \<^verbatim>\<open>VectorDB\<close>: parallel arrays, one entry per chunk.\<close>

record vector_db =
  v_dims :: nat
  v_texts :: "ustring list"
  v_ids :: "ustring list"
  v_pages :: "nat option list"
  v_offsets :: "nat option list"
  v_tokens :: "nat option list"
  v_embs :: "real list list"

text \<open>\<^verbatim>\<open>Math.sqrt(sum) || 1\<close>: a zero norm is replaced by 1.\<close>

definition normalize_vec :: "real list \<Rightarrow> real list" where
  "normalize_vec vec =
     (let sum = fold (\<lambda>x acc. acc + x * x) vec 0;
          n = (if sqrt sum = 0 then 1 else sqrt sum)
      in map (\<lambda>x. x / n) vec)"

text \<open>The dot product over the first \<open>min (length a) (length b)\<close> positions.\<close>

definition cosine :: "real list \<Rightarrow> real list \<Rightarrow> real" where
  "cosine a b = fold (\<lambda>(x, y) dot. dot + x * y) (zip a b) 0"

definition new_VectorDB :: "vector_index \<Rightarrow> vector_db" where
  "new_VectorDB index =
     \<lparr>v_dims = x_dims index,
      v_texts = map c_text (x_chunks index),
      v_ids = map c_id (x_chunks index),
      v_pages = map c_page (x_chunks index),
      v_offsets = map c_offset (x_chunks index),
      v_tokens = map c_tokens (x_chunks index),
      v_embs = map (\<lambda>ch. normalize_vec (c_embedding ch)) (x_chunks index)\<rparr>"

text \<open>
  \<^verbatim>\<open>xs.sort((a, b) => key(b) - key(a))\<close>: a stable sort, descending in the key.
\<close>

definition sort_desc :: "('a \<Rightarrow> real) \<Rightarrow> 'a list \<Rightarrow> 'a list" where
  "sort_desc key xs = sort_key (\<lambda>x. - key x) xs"

text \<open>Preselection: the indices at or above \<open>minScore\<close>, else the fallback.\<close>

definition preselect :: "real list \<Rightarrow> real \<Rightarrow> nat \<Rightarrow> nat list" where
  "preselect scores minScore topK =
     (let candidates = filter (\<lambda>i. scores ! i \<ge> minScore) [0..<length scores]
      in if candidates = []
         then take (topK * 3) (sort_desc (\<lambda>i. scores ! i) [0..<length scores])
         else candidates)"

text \<open>The inner loop over \<open>selected\<close>: the largest similarity to a chosen chunk, at least 0.\<close>

definition diversity_of :: "real list list \<Rightarrow> nat list \<Rightarrow> nat \<Rightarrow> real" where
  "diversity_of embs selected i =
     fold (\<lambda>j diversity. let sim = cosine (embs ! i) (embs ! j)
                          in if sim > diversity then sim else diversity) selected 0"

definition mmr_of :: "real list \<Rightarrow> real list list \<Rightarrow> real \<Rightarrow> nat list \<Rightarrow> nat \<Rightarrow> real" where
  "mmr_of scores embs mmrLambda selected i =
     mmrLambda * (scores ! i) - (1 - mmrLambda) * diversity_of embs selected i"

text \<open>
  One pass of the \<^verbatim>\<open>for (const i of candidates)\<close> loop. The pair \<open>(bestIdx, bestScore)\<close>
  starts as \<open>(-1, -Infinity)\<close>, modelled by \<open>None\<close>: every real exceeds \<open>-Infinity\<close>.
\<close>

definition best_step ::
  "real list \<Rightarrow> real list list \<Rightarrow> real \<Rightarrow> nat list \<Rightarrow> nat \<Rightarrow> (nat \<times> real) option
     \<Rightarrow> (nat \<times> real) option" where
  "best_step scores embs mmrLambda selected i best =
     (if i \<in> set selected then best
      else let mmr = mmr_of scores embs mmrLambda selected i
           in (case best of
                 None \<Rightarrow> Some (i, mmr)
               | Some (bestIdx, bestScore) \<Rightarrow>
                   if mmr > bestScore then Some (i, mmr) else best))"

definition pick_best ::
  "real list \<Rightarrow> real list list \<Rightarrow> real \<Rightarrow> nat list \<Rightarrow> nat list \<Rightarrow> (nat \<times> real) option" where
  "pick_best scores embs mmrLambda candidates selected =
     fold (best_step scores embs mmrLambda selected) candidates None"

text \<open>The \<^verbatim>\<open>while\<close> loop of the MMR selection; \<open>break\<close> when nothing was picked.\<close>

function mmr_loop ::
  "real list \<Rightarrow> real list list \<Rightarrow> real \<Rightarrow> nat \<Rightarrow> nat list \<Rightarrow> nat list \<Rightarrow> nat list" where
  "mmr_loop scores embs mmrLambda topK candidates selected =
     (if length selected < topK \<and> length candidates > 0
      then (case pick_best scores embs mmrLambda candidates selected of
              None \<Rightarrow> selected
            | Some (bestIdx, bestScore) \<Rightarrow>
                mmr_loop scores embs mmrLambda topK candidates (selected @ [bestIdx]))
      else selected)"
  by pat_completeness auto
termination
  by (relation "measure (\<lambda>(scores, embs, mmrLambda, topK, candidates, selected).
        topK - length selected)") auto

declare mmr_loop.simps [simp del]

text \<open>The option defaults of \<^verbatim>\<open>search\<close> (\<^verbatim>\<open>options.topK ?? 5\<close> and so on).\<close>

definition topK_of :: "search_options \<Rightarrow> nat" where
  "topK_of options = (case o_topK options of None \<Rightarrow> 5 | Some n \<Rightarrow> n)"

definition minScore_of :: "search_options \<Rightarrow> real" where
  "minScore_of options = (case o_minScore options of None \<Rightarrow> 0.25 | Some m \<Rightarrow> m)"

definition mmrLambda_of :: "search_options \<Rightarrow> real" where
  "mmrLambda_of options = (case o_mmrLambda options of None \<Rightarrow> 0.5 | Some l \<Rightarrow> l)"

text \<open>The array \<^verbatim>\<open>scores\<close>: the similarity of the normalized query to every stored chunk.\<close>

definition scores_of :: "vector_db \<Rightarrow> real list \<Rightarrow> real list" where
  "scores_of db queryEmbedding = map (cosine (normalize_vec queryEmbedding)) (v_embs db)"

definition result_item :: "vector_db \<Rightarrow> real list \<Rightarrow> nat \<Rightarrow> search_result_item" where
  "result_item db scores i =
     \<lparr>r_id = v_ids db ! i, r_text = v_texts db ! i, r_score = scores ! i,
      r_page = v_pages db ! i, r_offset = v_offsets db ! i, r_tokens = v_tokens db ! i\<rparr>"

definition search :: "vector_db \<Rightarrow> real list \<Rightarrow> search_options \<Rightarrow> search_result_item list" where
  "search db queryEmbedding options =
     (let topK = topK_of options;
          minScore = minScore_of options;
          mmrLambda = mmrLambda_of options;
          scores = scores_of db queryEmbedding;
          candidates = preselect scores minScore topK;
          selected = mmr_loop scores (v_embs db) mmrLambda topK candidates []
      in map (result_item db scores) (sort_desc (\<lambda>i. scores ! i) selected))"





text \<open>A two-chunk corpus with orthogonal unit embeddings, and option records, for the
  concrete evaluations below.\<close>

definition example_index :: vector_index where
  "example_index = \<lparr>x_model = str ''m'', x_dims = 2, x_createdAt = str ''t'', x_chunks =
     [\<lparr>c_id = str ''a'', c_text = str ''A'', c_embedding = [1, 0], c_page = None,
        c_offset = None, c_tokens = None, c_metadata = None\<rparr>,
      \<lparr>c_id = str ''b'', c_text = str ''B'', c_embedding = [0, 1], c_page = None,
        c_offset = None, c_tokens = None, c_metadata = None\<rparr>]\<rparr>"

definition example_db :: vector_db where
  "example_db = new_VectorDB example_index"

definition options_relevance :: search_options where
  "options_relevance = \<lparr>o_topK = Some 2, o_minScore = Some 0.25, o_mmrLambda = Some 1\<rparr>"

definition options_zero :: search_options where
  "options_zero = \<lparr>o_topK = Some 0, o_minScore = Some 0.25, o_mmrLambda = Some 0.5\<rparr>"

definition options_default :: search_options where
  "options_default = \<lparr>o_topK = None, o_minScore = None, o_mmrLambda = None\<rparr>"

section \<open>Lexical scoring (src/rag/hybrid.ts, tokenize and bm25Score)\<close>

text \<open>
  Two functions of the JavaScript platform are parameters of the model:
  \<^verbatim>\<open>String.prototype.toLowerCase\<close> and the case folding (\<open>Canonicalize\<close>) that a regular
  expression with flag \<^verbatim>\<open>i\<close> applies to a code unit before comparing it.
\<close>

record platform =
  toLowerCase :: "ustring \<Rightarrow> ustring"
  canonicalize :: "nat \<Rightarrow> nat"

text \<open>The code units matched by \<^verbatim>\<open>\s\<close>.\<close>

definition is_space :: "nat \<Rightarrow> bool" where
  "is_space c = ((9 \<le> c \<and> c \<le> 13) \<or> c = 32 \<or> c = 160 \<or> c = 5760
     \<or> (8192 \<le> c \<and> c \<le> 8202) \<or> c = 8232 \<or> c = 8233 \<or> c = 8239 \<or> c = 8287
     \<or> c = 12288 \<or> c = 65279)"

definition space_chars :: "nat list" where
  "space_chars = [9, 10, 11, 12, 13, 32, 160, 5760] @ [8192..<8203]
     @ [8232, 8233, 8239, 8287, 12288, 65279]"

text \<open>
  The members of the character class of \<^verbatim>\<open>tokenize\<close>, which lists the Latin range
  \<open>a\<close> to \<open>z\<close>, the Cyrillic range U+0430 to U+044F, the digits, the underscore (code
  unit 95) and \<^verbatim>\<open>\s\<close>.
\<close>

definition word_chars :: "nat list" where
  "word_chars = [97..<123] @ [1072..<1104] @ [48..<58] @ [95]"

definition class_members :: "nat list" where
  "class_members = word_chars @ space_chars"

text \<open>Under flag \<^verbatim>\<open>i\<close> a code unit matches the class when its case folding equals the
  case folding of a member.\<close>

definition class_matches :: "platform \<Rightarrow> nat \<Rightarrow> bool" where
  "class_matches P ch = list_ex (\<lambda>a. canonicalize P a = canonicalize P ch) class_members"

text \<open>\<^verbatim>\<open>.replace(/[^...]/gi, ' ')\<close>: every code unit outside the class becomes a space.\<close>

definition replace_non_word :: "platform \<Rightarrow> ustring \<Rightarrow> ustring" where
  "replace_non_word P s = map (\<lambda>ch. if class_matches P ch then ch else 32) s"

text \<open>
  \<^verbatim>\<open>.split(/\s+/)\<close>: the pieces between maximal runs of whitespace; a run at the start or
  at the end leaves an empty piece, and the empty string gives one empty piece.
\<close>

function split_ws_from :: "ustring \<Rightarrow> ustring \<Rightarrow> ustring list" where
  "split_ws_from cur [] = [cur]"
| "split_ws_from cur (c # cs) =
     (if is_space c then cur # split_ws_from [] (dropWhile is_space cs)
      else split_ws_from (cur @ [c]) cs)"
  by pat_completeness auto
termination
  by (relation "measure (\<lambda>(cur, cs). length cs)")
     (auto simp: length_dropWhile_le less_Suc_eq_le)

definition split_ws :: "ustring \<Rightarrow> ustring list" where
  "split_ws s = split_ws_from [] s"

definition tokenize :: "platform \<Rightarrow> ustring \<Rightarrow> ustring list" where
  "tokenize P s = filter (\<lambda>t. t \<noteq> []) (split_ws (replace_non_word P (toLowerCase P s)))"

text \<open>
  The case mappings restricted to Basic Latin and to Cyrillic U+0400 to U+045F (the
  identity elsewhere), for concrete evaluations.
\<close>

definition lower_basic :: "nat \<Rightarrow> nat" where
  "lower_basic c = (if 65 \<le> c \<and> c \<le> 90 then c + 32
                    else if 1040 \<le> c \<and> c \<le> 1071 then c + 32
                    else if 1024 \<le> c \<and> c \<le> 1039 then c + 80 else c)"

definition upper_basic :: "nat \<Rightarrow> nat" where
  "upper_basic c = (if 97 \<le> c \<and> c \<le> 122 then c - 32
                    else if 1072 \<le> c \<and> c \<le> 1103 then c - 32
                    else if 1104 \<le> c \<and> c \<le> 1119 then c - 80 else c)"

definition basic_platform :: platform where
  "basic_platform = \<lparr>toLowerCase = map lower_basic, canonicalize = upper_basic\<rparr>"

text \<open>A JavaScript \<^verbatim>\<open>Map\<close> keeps its keys in insertion order; \<^verbatim>\<open>set\<close> on a present key
  replaces the value in place.\<close>

fun map_set :: "('k \<times> 'v) list \<Rightarrow> 'k \<Rightarrow> 'v \<Rightarrow> ('k \<times> 'v) list" where
  "map_set [] k v = [(k, v)]"
| "map_set ((k', v') # m) k v = (if k' = k then (k, v) # m else (k', v') # map_set m k v)"

text \<open>
  The maps \<^verbatim>\<open>tf\<close> and \<^verbatim>\<open>df\<close> that the first loop of \<^verbatim>\<open>bm25Score\<close> builds are only read
  afterwards, so they are given by their lookups: \<open>tf_has\<close> says whether \<^verbatim>\<open>tf.get(t)\<close> is
  defined, \<open>tf_count\<close> is \<^verbatim>\<open>tf.get(t).get(id) || 0\<close>, and \<open>df_count\<close> is \<^verbatim>\<open>df.get(t) || 0\<close>.
\<close>

definition tf_has :: "platform \<Rightarrow> doc list \<Rightarrow> ustring \<Rightarrow> bool" where
  "tf_has P docs t = list_ex (\<lambda>d. t \<in> set (tokenize P (d_text d))) docs"

definition tf_count :: "platform \<Rightarrow> doc list \<Rightarrow> ustring \<Rightarrow> ustring \<Rightarrow> nat" where
  "tf_count P docs t i =
     sum_list (map (\<lambda>d. count_list (tokenize P (d_text d)) t) (filter (\<lambda>d. d_id d = i) docs))"

definition df_count :: "platform \<Rightarrow> doc list \<Rightarrow> ustring \<Rightarrow> nat" where
  "df_count P docs t = length (filter (\<lambda>d. t \<in> set (tokenize P (d_text d))) docs)"

text \<open>The score of one document: the inner loop over the query tokens.\<close>

definition bm25_doc :: "platform \<Rightarrow> ustring list \<Rightarrow> doc list \<Rightarrow> doc \<Rightarrow> real" where
  "bm25_doc P tokens docs d =
     (let N = (if length docs = 0 then 1 else length docs);
          avgdl = real (fold (\<lambda>d a. a + length (tokenize P (d_text d))) docs 0) / real N;
          k1 = 1.2; b = 0.75;
          dl = real (length (tokenize P (d_text d)))
      in fold (\<lambda>q s.
           if \<not> tf_has P docs q then s
           else let f = real (tf_count P docs q (d_id d));
                    idf = ln (1 + (real N - real (df_count P docs q) + 0.5)
                                  / (real (df_count P docs q) + 0.5));
                    denom = f + k1 * (1 - b + b * (dl / avgdl))
                in s + idf * ((f * (k1 + 1)) / (if denom = 0 then 1 else denom)))
         tokens 0)"

definition bm25Score :: "platform \<Rightarrow> ustring \<Rightarrow> doc list \<Rightarrow> (ustring \<times> real) list" where
  "bm25Score P query docs =
     (let tokens = tokenize P query
      in if tokens = [] then []
         else fold (\<lambda>d scores. let s = bm25_doc P tokens docs d
                                in if s \<noteq> 0 then map_set scores (d_id d) s else scores)
                docs [])"

section \<open>Score fusion and the hybrid retriever (src/rag/hybrid.ts)\<close>

datatype source = Transaction | Summary

record hybrid_result_item =
  h_id :: ustring
  h_text :: ustring
  h_score :: real
  h_source :: source

text \<open>\<^verbatim>\<open>bm.get(id) || 0\<close>.\<close>

definition bm_get :: "(ustring \<times> real) list \<Rightarrow> ustring \<Rightarrow> real" where
  "bm_get bm i = (case map_of bm i of None \<Rightarrow> 0 | Some v \<Rightarrow> v)"

text \<open>\<^verbatim>\<open>Math.max(...xs, 1e-6)\<close>.\<close>

definition max_with_eps :: "real list \<Rightarrow> real" where
  "max_with_eps xs = fold max xs 0.000001"

text \<open>
  The second loop of \<^verbatim>\<open>fuse\<close>: the lexical entries that are not among the dense items
  and whose document is found in the pool.
\<close>

definition bm_only_items ::
  "doc list \<Rightarrow> source \<Rightarrow> ustring set \<Rightarrow> real \<Rightarrow> (ustring \<times> real) list \<Rightarrow> hybrid_result_item list" where
  "bm_only_items pool src seen bmMax bmOnly =
     concat (map (\<lambda>(i, bms).
         if i \<in> seen then []
         else let fused = 0.4 * (bms / bmMax)
              in (case find (\<lambda>d. d_id d = i) pool of
                    None \<Rightarrow> []
                  | Some doc \<Rightarrow>
                      [\<lparr>h_id = i, h_text = d_text doc, h_score = fused, h_source = src\<rparr>]))
       bmOnly)"

text \<open>
  The local function \<^verbatim>\<open>fuse\<close>; the variables \<^verbatim>\<open>txPool\<close>, \<^verbatim>\<open>sumPool\<close> and \<^verbatim>\<open>k\<close> of the
  enclosing \<^verbatim>\<open>search\<close> are its first three arguments.
\<close>

definition fuse ::
  "doc list \<Rightarrow> doc list \<Rightarrow> nat \<Rightarrow> search_result_item list \<Rightarrow> (ustring \<times> real) list \<Rightarrow> source
     \<Rightarrow> hybrid_result_item list" where
  "fuse txPool sumPool k items bm src =
     (let denseMax = max_with_eps (map r_score items);
          bmMax = max_with_eps (map snd bm);
          dense_out = map (\<lambda>it.
              let bmScore = bm_get bm (r_id it);
                  fused = 0.6 * (r_score it / denseMax) + 0.4 * (bmScore / bmMax)
              in \<lparr>h_id = r_id it, h_text = r_text it, h_score = fused, h_source = src\<rparr>) items;
          seen = set (map r_id items);
          bmOnly = take k (sort_desc snd bm)
      in dense_out
         @ bm_only_items (if src = Transaction then txPool else sumPool) src seen bmMax bmOnly)"

text \<open>
  The embedding service. A request ends in a transport error, or in a response with its
  \<^verbatim>\<open>ok\<close> flag and a body; the body is not JSON, or it is JSON and
  \<^verbatim>\<open>data?.data?.[0]?.embedding || null\<close> is a vector or \<^verbatim>\<open>null\<close>.
\<close>

datatype json_body = Invalid_json | Json "real list option"

datatype fetch_outcome = Network_error | Response bool json_body

type_synonym embedding_service = "ustring \<Rightarrow> fetch_outcome"

datatype exn = Thrown

text \<open>The body of the \<^verbatim>\<open>try\<close> block of \<^verbatim>\<open>embed\<close>, then \<^verbatim>\<open>embed\<close> with its \<^verbatim>\<open>catch\<close>.\<close>

definition embed_request :: "embedding_service \<Rightarrow> ustring \<Rightarrow> exn + real list option" where
  "embed_request svc text =
     (case svc text of
        Network_error \<Rightarrow> Inl Thrown
      | Response ok body \<Rightarrow>
          if \<not> ok then Inr None
          else (case body of Invalid_json \<Rightarrow> Inl Thrown | Json e \<Rightarrow> Inr e))"

definition embed :: "embedding_service \<Rightarrow> ustring \<Rightarrow> real list option" where
  "embed svc text = (case embed_request svc text of Inl e \<Rightarrow> None | Inr r \<Rightarrow> r)"

text \<open>The failures of the collaborator named by the specification: a transport error,
  a non-success response, a body without a vector.\<close>

definition embedding_fails :: "embedding_service \<Rightarrow> ustring \<Rightarrow> bool" where
  "embedding_fails svc text =
     (case svc text of
        Network_error \<Rightarrow> True
      | Response ok body \<Rightarrow>
          (if ok then (case body of Invalid_json \<Rightarrow> True | Json e \<Rightarrow> e = None) else True))"

record hybrid_retriever =
  txDb :: "vector_db option"
  sumDb :: "vector_db option"
  txDocs :: "doc list"
  sumDocs :: "doc list"

definition new_HybridRetriever :: hybrid_retriever where
  "new_HybridRetriever = \<lparr>txDb = None, sumDb = None, txDocs = [], sumDocs = []\<rparr>"

definition doc_of_chunk :: "vector_chunk \<Rightarrow> doc" where
  "doc_of_chunk c = \<lparr>d_id = c_id c, d_text = c_text c, d_metadata = c_metadata c\<rparr>"

text \<open>\<^verbatim>\<open>load\<close>, once both index files have been fetched and parsed.\<close>

definition hybrid_load :: "vector_index \<Rightarrow> vector_index \<Rightarrow> hybrid_retriever" where
  "hybrid_load txIndex sumIndex =
     \<lparr>txDb = Some (new_VectorDB txIndex), sumDb = Some (new_VectorDB sumIndex),
      txDocs = map doc_of_chunk (x_chunks txIndex),
      sumDocs = map doc_of_chunk (x_chunks sumIndex)\<rparr>"

definition dense_options :: "nat \<Rightarrow> search_options" where
  "dense_options k = \<lparr>o_topK = Some (min k 6), o_minScore = Some 0.2, o_mmrLambda = Some 0.6\<rparr>"

text \<open>\<^verbatim>\<open>dense.filter(d => pool.find(p => p.id === d.id))\<close>.\<close>

definition restrict_to_pool :: "doc list \<Rightarrow> search_result_item list \<Rightarrow> search_result_item list" where
  "restrict_to_pool pool dense = filter (\<lambda>d. find (\<lambda>p. d_id p = r_id d) pool \<noteq> None) dense"

text \<open>\<^verbatim>\<open>HybridRetriever.search\<close>; \<open>Inl\<close> would be an exception reaching the caller.\<close>

definition hybrid_search ::
  "platform \<Rightarrow> embedding_service \<Rightarrow> hybrid_retriever \<Rightarrow> ustring \<Rightarrow> hybrid_filter option \<Rightarrow> nat
     \<Rightarrow> exn + hybrid_result_item list" where
  "hybrid_search P svc h query flt k =
     (case (txDb h, sumDb h) of
        (Some tdb, Some sdb) \<Rightarrow>
          (case embed svc query of
             None \<Rightarrow> Inr []
           | Some qEmb \<Rightarrow>
               (let txPool = applyFilter (txDocs h) flt;
                    sumPool = applyFilter (sumDocs h) flt;
                    txDense = search tdb qEmb (dense_options k);
                    sumDense = search sdb qEmb (dense_options k);
                    txDenseFiltered = restrict_to_pool txPool txDense;
                    sumDenseFiltered = restrict_to_pool sumPool sumDense;
                    txBm25 = bm25Score P query txPool;
                    sumBm25 = bm25Score P query sumPool;
                    fusedTx = fuse txPool sumPool k txDenseFiltered txBm25 Transaction;
                    fusedSum = fuse txPool sumPool k sumDenseFiltered sumBm25 Summary
                in Inr (take k (sort_desc h_score (fusedTx @ fusedSum)))))
      | _ \<Rightarrow> Inr [])"

section \<open>Single-corpus retriever (src/rag/retriever.ts)\<close>

record retrieve_options = search_options +
  o_maxContextChars :: "nat option"

record retrieve_result =
  rr_context :: ustring
  rr_chunks :: "search_result_item list"

record retriever =
  rt_db :: "vector_db option"

text \<open>\<^verbatim>\<open>clean\<close>: runs of whitespace become one space, then \<^verbatim>\<open>trim\<close>.\<close>

function collapse_ws :: "ustring \<Rightarrow> ustring" where
  "collapse_ws [] = []"
| "collapse_ws (c # cs) =
     (if is_space c then 32 # collapse_ws (dropWhile is_space cs) else c # collapse_ws cs)"
  by pat_completeness auto
termination
  by (relation "measure length") (auto simp: length_dropWhile_le less_Suc_eq_le)

definition trim :: "ustring \<Rightarrow> ustring" where
  "trim s = rev (dropWhile is_space (rev (dropWhile is_space s)))"

definition clean :: "ustring \<Rightarrow> ustring" where
  "clean text = trim (collapse_ws text)"

text \<open>\<^verbatim>\<open>Retriever.embed\<close> sends the cleaned text.\<close>

definition retriever_embed :: "embedding_service \<Rightarrow> ustring \<Rightarrow> real list option" where
  "retriever_embed svc text = embed svc (clean text)"

text \<open>The decimal digits of a count (\<^verbatim>\<open>${i + 1}\<close>, \<^verbatim>\<open>${r.page}\<close>).\<close>

function show_nat :: "nat \<Rightarrow> ustring" where
  "show_nat n = (if n < 10 then [48 + n] else show_nat (n div 10) @ [48 + n mod 10])"
  by pat_completeness auto
termination
  by (relation "measure (\<lambda>n. n)") auto

declare show_nat.simps [simp del]

text \<open>
  \<^verbatim>\<open>x.toFixed(3)\<close> for \<open>\<bar>x\<bar> < 10\<^sup>2\<^sup>1\<close>: a minus sign for negative \<open>x\<close>, then the integer
  nearest to \<open>\<bar>x\<bar> * 1000\<close> (the larger one on a tie) with a point before its last three
  digits.
\<close>

definition toFixed3 :: "real \<Rightarrow> ustring" where
  "toFixed3 x =
     (let n = nat \<lfloor>\<bar>x\<bar> * 1000 + 1 / 2\<rfloor>
      in (if x < 0 then [45] else []) @ show_nat (n div 1000) @ [46]
         @ [48 + n div 100 mod 10, 48 + n div 10 mod 10, 48 + n mod 10])"

text \<open>The literal pieces of the header, as UTF-16 code units: the Russian word for
  ``source'' and a space; \<open>" ("\<close>, the abbreviation for ``page'' and a space; \<open>")"\<close>;
  an em dash between spaces and \<open>"score "\<close>.\<close>

definition lit_source :: ustring where
  "lit_source = [1048, 1089, 1090, 1086, 1095, 1085, 1080, 1082, 32]"

definition lit_page_open :: ustring where
  "lit_page_open = [32, 40, 1089, 1090, 1088, 46, 32]"

definition lit_page_close :: ustring where
  "lit_page_close = [41]"

definition lit_score :: ustring where
  "lit_score = [32, 8212, 32, 115, 99, 111, 114, 101, 32]"

definition header_of :: "nat \<Rightarrow> search_result_item \<Rightarrow> ustring" where
  "header_of i r =
     lit_source @ show_nat (i + 1)
     @ (case r_page r of
          None \<Rightarrow> []
        | Some p \<Rightarrow> if p \<noteq> 0 then lit_page_open @ show_nat p @ lit_page_close else [])
     @ lit_score @ toFixed3 (r_score r)"

definition block_of :: "nat \<Rightarrow> search_result_item \<Rightarrow> ustring" where
  "block_of i r = header_of i r @ [10] @ r_text r"

text \<open>The assembly loop from index \<open>i\<close> on, with its \<^verbatim>\<open>break\<close>.\<close>

fun assemble :: "nat \<Rightarrow> nat \<Rightarrow> nat \<Rightarrow> ustring list \<Rightarrow> search_result_item list \<Rightarrow> ustring list" where
  "assemble maxContextChars i used lines [] = lines"
| "assemble maxContextChars i used lines (r # rs) =
     (let block = block_of i r
      in if used + length block > maxContextChars then lines
         else assemble maxContextChars (i + 1) (used + length block) (lines @ [block]) rs)"

text \<open>\<^verbatim>\<open>lines.join(sep)\<close>.\<close>

fun join :: "ustring \<Rightarrow> ustring list \<Rightarrow> ustring" where
  "join sep [] = []"
| "join sep [x] = x"
| "join sep (x # y # ys) = x @ sep @ join sep (y # ys)"

definition retrieve ::
  "embedding_service \<Rightarrow> retriever \<Rightarrow> ustring \<Rightarrow> retrieve_options \<Rightarrow> retrieve_result option" where
  "retrieve svc rt query options =
     (case rt_db rt of
        None \<Rightarrow> None
      | Some db \<Rightarrow>
          (case retriever_embed svc query of
             None \<Rightarrow> None
           | Some qEmb \<Rightarrow>
               (let topK = (case o_topK options of None \<Rightarrow> 5 | Some n \<Rightarrow> n);
                    minScore = (case o_minScore options of None \<Rightarrow> 0.25 | Some m \<Rightarrow> m);
                    mmrLambda = (case o_mmrLambda options of None \<Rightarrow> 0.5 | Some l \<Rightarrow> l);
                    maxContextChars =
                      (case o_maxContextChars options of None \<Rightarrow> 2000 | Some c \<Rightarrow> c);
                    results = search db qEmb
                      \<lparr>o_topK = Some topK, o_minScore = Some minScore,
                       o_mmrLambda = Some mmrLambda\<rparr>;
                    lines = assemble maxContextChars 0 0 [] results
                in Some \<lparr>rr_context = join [10, 10] lines, rr_chunks = results\<rparr>)))"

section \<open>Reference notions and example data\<close>



text \<open>A dense result list and a lexical score map for the fusion example.\<close>

definition example_items :: "search_result_item list" where
  "example_items = [\<lparr>r_id = str ''a'', r_text = str ''A'', r_score = 1, r_page = None,
      r_offset = None, r_tokens = None\<rparr>]"

definition example_bm :: "(ustring \<times> real) list" where
  "example_bm = [(str ''a'', 1), (str ''b'', 2)]"

text \<open>An embedding service that answers every request with the vector \<open>[1, 0]\<close>, one that
  always fails in transport, and retrieval options with a cap of 52 characters.\<close>

definition example_service :: embedding_service where
  "example_service = (\<lambda>text. Response True (Json (Some [1, 0])))"

definition failing_service :: embedding_service where
  "failing_service = (\<lambda>text. Network_error)"

definition options_cap52 :: retrieve_options where
  "options_cap52 = \<lparr>o_topK = None, o_minScore = Some 0, o_mmrLambda = None,
     o_maxContextChars = Some 52\<rparr>"

section \<open>Results\<close>

subsection \<open>Metadata filter\<close>

text \<open>
  C1. The specification admits a document whose metadata lacks a constrained field.
  The code does so for category, merchant and currency, but its year and month tests
  have no such guard: in the scenario of the specification the filter \<^verbatim>\<open>{month: 1}\<close>
  keeps document 1 only, and document 3 (no metadata), which the specification admits,
  is dropped together with document 2.
\<close>

theorem applyFilter_scenario:
  "applyFilter [scenario_doc1, scenario_doc2, scenario_doc3] (Some scenario_filter)
     = [scenario_doc1]
   \<and> spec_admits scenario_filter scenario_doc3
   \<and> \<not> passes scenario_filter scenario_doc3"
  by (simp add: applyFilter_def passes_def spec_admits_def spec_field_ok_def
      scenario_doc1_def scenario_doc2_def scenario_doc3_def scenario_filter_def
      no_metadata_def truthy_num_def truthy_str_def)


subsection \<open>Vector store\<close>









































lemmas eval_search = search_def example_db_def example_index_def new_VectorDB_def normalize_vec_def cosine_def
  preselect_def sort_desc_def mmr_loop.simps pick_best_def best_step_def mmr_of_def diversity_of_def
  topK_of_def minScore_of_def mmrLambda_of_def scores_of_def result_item_def
  options_relevance_def options_zero_def options_default_def








subsection \<open>Embedding failure and the single-corpus retriever\<close>

lemma embedding_fails_iff: "embedding_fails svc text \<longleftrightarrow> embed svc text = None"
  by (auto simp: embedding_fails_def embed_def embed_request_def
      split: fetch_outcome.splits json_body.splits)

text \<open>
  C6. If the embedding collaborator fails (transport error, non-success response, a
  body that is not JSON or has no vector), \<^verbatim>\<open>HybridRetriever.search\<close> returns the empty
  list and no exception reaches the caller, for every query, filter and \<open>k\<close>.
\<close>

theorem hybrid_search_embedding_failure:
  assumes "embedding_fails svc query"
  shows "hybrid_search P svc h query flt k = Inr []"
proof -
  have "embed svc query = None" using assms by (simp add: embedding_fails_iff)
  then show ?thesis by (simp add: hybrid_search_def split: option.splits)
qed

theorem hybrid_search_embedding_failure_witness:
  "embedding_fails failing_service (str ''q'')
   \<and> hybrid_search basic_platform failing_service (hybrid_load example_index example_index)
        (str ''q'') None 6 = Inr []"
proof -
  have f: "embedding_fails failing_service (str ''q'')"
    by (simp add: embedding_fails_def failing_service_def)
  from hybrid_search_embedding_failure[OF f] f show ?thesis by simp
qed

text \<open>
  C9. \<^verbatim>\<open>Retriever.retrieve\<close> returns \<^verbatim>\<open>null\<close> exactly when no index has been loaded or the
  query embedding could not be obtained; otherwise it returns a result object.
\<close>

theorem retrieve_null_iff:
  "retrieve svc rt query options = None
     \<longleftrightarrow> (rt_db rt = None \<or> retriever_embed svc query = None)"
  by (simp add: retrieve_def Let_def split: option.splits)

lemma example_results:
  "search example_db [1, 0] \<lparr>o_topK = Some 5, o_minScore = Some 0, o_mmrLambda = Some (1 / 2)\<rparr>
     = [\<lparr>r_id = str ''a'', r_text = str ''A'', r_score = 1, r_page = None, r_offset = None, r_tokens = None\<rparr>,
        \<lparr>r_id = str ''b'', r_text = str ''B'', r_score = 0, r_page = None, r_offset = None, r_tokens = None\<rparr>]"
  by (simp add: eval_search)

lemma toFixed3_1: "toFixed3 1 = [49, 46, 48, 48, 48]"
  by (simp add: toFixed3_def show_nat.simps)

lemma toFixed3_0: "toFixed3 0 = [48, 46, 48, 48, 48]"
  by (simp add: toFixed3_def show_nat.simps)

text \<open>
  What the assembly loop does guarantee: the context is the join of the first \<open>n\<close> blocks,
  each whole, the lengths of these blocks add up to at most the cap, and the context
  is longer than their sum by the \<open>n - 1\<close> separators.
\<close>

lemma assemble_whole_blocks:
  "\<exists>n\<le>length rs.
      assemble maxc i used lines rs = lines @ map (\<lambda>j. block_of (i + j) (rs ! j)) [0..<n]
      \<and> (used \<le> maxc \<longrightarrow>
           used + sum_list (map (\<lambda>j. length (block_of (i + j) (rs ! j))) [0..<n]) \<le> maxc)"
proof (induction rs arbitrary: i used lines)
  case Nil
  show ?case by simp
next
  case (Cons r rs)
  show ?case
  proof (cases "used + length (block_of i r) > maxc")
    case True
    then have "assemble maxc i used lines (r # rs)
        = lines @ map (\<lambda>j. block_of (i + j) ((r # rs) ! j)) [0..<0]" by simp
    then show ?thesis by (intro exI[of _ 0]) simp
  next
    case False
    from Cons.IH[of "i + 1" "used + length (block_of i r)" "lines @ [block_of i r]"]
    obtain n where n: "n \<le> length rs"
      and a: "assemble maxc (i + 1) (used + length (block_of i r)) (lines @ [block_of i r]) rs
          = (lines @ [block_of i r]) @ map (\<lambda>j. block_of (i + 1 + j) (rs ! j)) [0..<n]"
      and b: "used + length (block_of i r) \<le> maxc \<longrightarrow>
          used + length (block_of i r)
            + sum_list (map (\<lambda>j. length (block_of (i + 1 + j) (rs ! j))) [0..<n]) \<le> maxc"
      by blast
    have m: "map f [0..<Suc n] = f 0 # map (\<lambda>j. f (Suc j)) [0..<n]" for f :: "nat \<Rightarrow> 'b"
      by (simp add: upt_conv_Cons map_Suc_upt[symmetric] del: upt_Suc)
    have "assemble maxc i used lines (r # rs)
        = lines @ map (\<lambda>j. block_of (i + j) ((r # rs) ! j)) [0..<Suc n]"
      using False a by (simp add: m del: upt_Suc)
    moreover have "used + sum_list (map (\<lambda>j. length (block_of (i + j) ((r # rs) ! j))) [0..<Suc n]) \<le> maxc"
      using False b by (simp add: m add.assoc del: upt_Suc)
    ultimately show ?thesis using n by (intro exI[of _ "Suc n"]) simp
  qed
qed

lemma length_join:
  "length (join sep xs) = sum_list (map length xs) + length sep * (length xs - 1)"
  by (induction sep xs rule: join.induct) simp_all


lemma retrieve_context_whole_blocks:
  assumes "retrieve svc rt query options = Some res"
  shows "\<exists>n\<le>length (rr_chunks res).
           rr_context res = join [10, 10] (map (\<lambda>j. block_of j (rr_chunks res ! j)) [0..<n])
           \<and> length (rr_context res)
               \<le> (case o_maxContextChars options of None \<Rightarrow> 2000 | Some c \<Rightarrow> c) + 2 * (n - 1)"
proof -
  let ?maxc = "case o_maxContextChars options of None \<Rightarrow> 2000 | Some c \<Rightarrow> c"
  from assms have c: "rr_context res = join [10, 10] (assemble ?maxc 0 0 [] (rr_chunks res))"
    by (auto simp: retrieve_def Let_def split: option.splits)
  from assemble_whole_blocks[of "rr_chunks res" ?maxc 0 0 "[]"]
  obtain n where n: "n \<le> length (rr_chunks res)"
    and a: "assemble ?maxc 0 0 [] (rr_chunks res) = map (\<lambda>j. block_of j (rr_chunks res ! j)) [0..<n]"
    and b: "sum_list (map (\<lambda>j. length (block_of j (rr_chunks res ! j))) [0..<n]) \<le> ?maxc"
    by auto
  have "length (rr_context res)
      = sum_list (map (\<lambda>j. length (block_of j (rr_chunks res ! j))) [0..<n]) + 2 * (n - 1)"
    unfolding c a by (simp add: length_join comp_def)
  with b have "length (rr_context res) \<le> ?maxc + 2 * (n - 1)" by simp
  with n c a show ?thesis by auto
qed


text \<open>
  C2. The loop counts the lengths of the blocks against \<^verbatim>\<open>maxContextChars\<close> but not the
  separators that \<^verbatim>\<open>join\<close> puts between them. With two results whose blocks have 26
  characters each and a cap of 52, both blocks are taken and the context has 54
  characters.
\<close>

theorem retrieve_context_exceeds_cap:
  "o_maxContextChars options_cap52 = Some 52
   \<and> map_option (\<lambda>res. length (rr_context res))
        (retrieve example_service \<lparr>rt_db = Some example_db\<rparr> (str ''q'') options_cap52) = Some 54"
  by (simp add: retrieve_def retriever_embed_def embed_def embed_request_def example_service_def
      options_cap52_def example_results block_of_def header_of_def toFixed3_1 toFixed3_0
      show_nat.simps lit_source_def lit_score_def str_def Let_def)


subsection \<open>Tokenizer\<close>











subsection \<open>Score fusion\<close>

lemma max_with_eps_Max: "max_with_eps xs = Max (set (0.000001 # xs))"
  unfolding max_with_eps_def by (rule Max.set_eq_fold[symmetric])

lemma max_with_eps_pos: "0 < max_with_eps xs"
proof -
  have "(0.000001::real) \<le> Max (set (0.000001 # xs))" by (rule Max_ge) simp_all
  then show ?thesis by (simp add: max_with_eps_Max)
qed

lemma max_with_eps_ge: "v \<in> set xs \<Longrightarrow> v \<le> max_with_eps xs"
  unfolding max_with_eps_Max by (rule Max_ge) simp_all

lemma max_with_eps_le: "0.000001 \<le> m \<Longrightarrow> \<forall>v\<in>set xs. v \<le> m \<Longrightarrow> max_with_eps xs \<le> m"
  unfolding max_with_eps_Max by (subst Max_le_iff) auto

lemma map_set_mem: "(k, v) \<in> set (map_set m k v)"
  by (induction m k v rule: map_set.induct) auto

lemma map_of_map_set: "map_of (map_set m k v) k = Some v"
  by (induction m k v rule: map_set.induct) auto

lemma map_set_new: "p \<in> set (map_set m k v) \<Longrightarrow> p \<in> set m \<or> p = (k, v)"
  by (induction m k v rule: map_set.induct) (auto split: if_splits)

lemma map_set_old:
  "(j, w) \<in> set m \<Longrightarrow> (j, w) \<in> set (map_set m k v) \<or> (j = k \<and> map_of m k = Some w)"
  by (induction m k v rule: map_set.induct) (auto split: if_splits)

lemma bm_get_le_max: "bm_get bm x \<le> max_with_eps (map snd bm)"
proof (cases "map_of bm x")
  case None
  then show ?thesis using max_with_eps_pos[of "map snd bm"] by (simp add: bm_get_def)
next
  case (Some v)
  then have "(x, v) \<in> set bm" by (rule map_of_SomeD)
  then have "v \<in> set (map snd bm)" by force
  from max_with_eps_ge[OF this] Some show ?thesis by (simp add: bm_get_def)
qed

lemma ratio_mono:
  fixes b b' M M' :: real
  assumes "b \<le> b'" "0 < M" "0 < M'" "b \<le> M" "b' \<le> M'" "M' \<le> max M b'" "M \<le> max M' b"
  shows "b / M \<le> b' / M'"
proof (cases "M \<le> b'")
  case True
  with assms have "M' = b'" by (simp add: max_def split: if_splits)
  with assms have "b' / M' = 1" by simp
  moreover have "b / M \<le> 1" using assms by simp
  ultimately show ?thesis by simp
next
  case False
  with assms have le: "M' \<le> M" by (simp add: max_def split: if_splits)
  show ?thesis
  proof (cases "0 \<le> b'")
    case True
    have "b / M \<le> b' / M" using assms by (simp add: divide_right_mono)
    also have "\<dots> \<le> b' / M'" using True le assms by (simp add: frac_le)
    finally show ?thesis .
  next
    case False
    with assms have "b < 0" by simp
    with assms have "M \<le> M'" by (simp add: max_def split: if_splits)
    with le have "M' = M" by simp
    then show ?thesis using assms by (simp add: divide_right_mono)
  qed
qed

lemma lexical_ratio_mono:
  assumes "bm_get bm x \<le> b'"
  shows "bm_get bm x / max_with_eps (map snd bm)
           \<le> bm_get (map_set bm x b') x / max_with_eps (map snd (map_set bm x b'))"
proof -
  let ?M = "max_with_eps (map snd bm)"
  let ?M' = "max_with_eps (map snd (map_set bm x b'))"
  have g: "bm_get (map_set bm x b') x = b'" by (simp add: bm_get_def map_of_map_set)
  have "b' \<in> set (map snd (map_set bm x b'))" using map_set_mem[of x b' bm] by force
  then have 1: "b' \<le> ?M'" by (rule max_with_eps_ge)
  have 2: "?M' \<le> max ?M b'"
  proof (rule max_with_eps_le)
    show "0.000001 \<le> max ?M b'" using max_with_eps_Max[of "map snd bm"] Max_ge[of "set (0.000001 # map snd bm)" "0.000001"]
      by (simp add: max_def)
    show "\<forall>v\<in>set (map snd (map_set bm x b')). v \<le> max ?M b'"
    proof
      fix v assume "v \<in> set (map snd (map_set bm x b'))"
      then obtain j where "(j, v) \<in> set (map_set bm x b')" by auto
      from map_set_new[OF this] have "(j, v) \<in> set bm \<or> v = b'" by auto
      then show "v \<le> max ?M b'"
      proof
        assume "(j, v) \<in> set bm"
        then have "v \<in> set (map snd bm)" by force
        from max_with_eps_ge[OF this] show ?thesis by simp
      qed simp
    qed
  qed
  have 3: "?M \<le> max ?M' (bm_get bm x)"
  proof (rule max_with_eps_le)
    show "0.000001 \<le> max ?M' (bm_get bm x)"
      using max_with_eps_Max[of "map snd (map_set bm x b')"]
        Max_ge[of "set (0.000001 # map snd (map_set bm x b'))" "0.000001"]
      by (simp add: max_def)
    show "\<forall>v\<in>set (map snd bm). v \<le> max ?M' (bm_get bm x)"
    proof
      fix v assume "v \<in> set (map snd bm)"
      then obtain j where "(j, v) \<in> set bm" by auto
      from map_set_old[OF this, of x b']
      show "v \<le> max ?M' (bm_get bm x)"
      proof
        assume "(j, v) \<in> set (map_set bm x b')"
        then have "v \<in> set (map snd (map_set bm x b'))" by force
        from max_with_eps_ge[OF this] show ?thesis by simp
      next
        assume "j = x \<and> map_of bm x = Some v"
        then show ?thesis by (simp add: bm_get_def)
      qed
    qed
  qed
  show ?thesis unfolding g
    using assms max_with_eps_pos[of "map snd bm"] max_with_eps_pos[of "map snd (map_set bm x b')"]
      bm_get_le_max[of bm x] 1 2 3
    by (rule ratio_mono)
qed

lemma fuse_dense_score:
  assumes "i < length items"
  shows "h_score (fuse txPool sumPool k items bm src ! i)
           = 0.6 * (r_score (items ! i) / max_with_eps (map r_score items))
             + 0.4 * (bm_get bm (r_id (items ! i)) / max_with_eps (map snd bm))"
  using assms by (simp add: fuse_def Let_def nth_append)

text \<open>
  C5. In \<^verbatim>\<open>fuse\<close>, for a document of the dense list, with the dense list and every other
  lexical score unchanged, raising the document's lexical score (setting it in the
  map to a value at least its current one, 0 when it has none) does not lower the
  document's fused score \<open>0.6 * dense / denseMax + 0.4 * lexical / lexicalMax\<close>.
\<close>

theorem fuse_monotone_in_lexical:
  assumes "i < length items" "r_id (items ! i) = x" "bm_get bm x \<le> b'"
  shows "h_score (fuse txPool sumPool k items bm src ! i)
           \<le> h_score (fuse txPool sumPool k items (map_set bm x b') src ! i)"
  using lexical_ratio_mono[OF assms(3)] assms(2)
  by (simp add: fuse_dense_score[OF assms(1)])

theorem fuse_monotone_in_lexical_witness:
  "0 < length example_items \<and> r_id (example_items ! 0) = str ''a''
   \<and> bm_get example_bm (str ''a'') \<le> 3
   \<and> h_score (fuse [] [] 6 example_items example_bm Transaction ! 0) = 4 / 5
   \<and> h_score (fuse [] [] 6 example_items (map_set example_bm (str ''a'') 3) Transaction ! 0) = 1
   \<and> h_score (fuse [] [] 6 example_items example_bm Transaction ! 0)
       \<le> h_score (fuse [] [] 6 example_items (map_set example_bm (str ''a'') 3) Transaction ! 0)"
proof -
  have a: "0 < length example_items" "r_id (example_items ! 0) = str ''a''"
    "bm_get example_bm (str ''a'') \<le> 3"
    by (simp_all add: example_items_def example_bm_def bm_get_def str_def)
  have v1: "h_score (fuse [] [] 6 example_items example_bm Transaction ! 0) = 4 / 5"
    by (simp add: fuse_dense_score a example_items_def example_bm_def bm_get_def str_def max_with_eps_def)
  have v2: "h_score (fuse [] [] 6 example_items (map_set example_bm (str ''a'') 3) Transaction ! 0) = 1"
    by (simp add: fuse_dense_score a example_items_def example_bm_def bm_get_def str_def max_with_eps_def)
  from fuse_monotone_in_lexical[OF a, of "[]" "[]" 6 Transaction] a v1 v2 show ?thesis by simp
qed


subsection \<open>Hybrid search\<close>





















end
